theory Spec2Isabelle
  imports Complex_Main "HOL-Library.Char_ord" "HOL-Library.List_Lexorder"
    "HOL-Library.Product_Lexorder"
begin

section \<open>Numbers of the data store\<close>

text \<open>
  The numeric columns of the three tables and everything derived from them are IEEE
  doubles. A finite double is modelled by the real number it denotes (rounding error,
  overflow and signed zeros are not modelled); the two infinities and the
  not-a-number value are kept, because the pipeline has code for them
  (\<^verbatim>\<open>np.isinf\<close>, comparisons that are false on NaN).
\<close>

datatype double = Fin real | PInf | NInf | NaN

text \<open>Comparisons: every comparison with NaN is false.\<close>

fun py_gt :: "double \<Rightarrow> double \<Rightarrow> bool" where
  "py_gt (Fin a) (Fin b) = (a > b)"
| "py_gt PInf (Fin b) = True"
| "py_gt PInf NInf = True"
| "py_gt (Fin a) NInf = True"
| "py_gt _ _ = False"

definition py_lt :: "double \<Rightarrow> double \<Rightarrow> bool" where
  "py_lt x y = py_gt y x"

fun py_ge :: "double \<Rightarrow> double \<Rightarrow> bool" where
  "py_ge NaN _ = False"
| "py_ge _ NaN = False"
| "py_ge (Fin a) (Fin b) = (a \<ge> b)"
| "py_ge PInf _ = True"
| "py_ge _ NInf = True"
| "py_ge _ _ = False"

definition py_le :: "double \<Rightarrow> double \<Rightarrow> bool" where
  "py_le x y = py_ge y x"

text \<open>Arithmetic, as IEEE defines it on the infinities and NaN.\<close>

fun py_neg :: "double \<Rightarrow> double" where
  "py_neg (Fin a) = Fin (- a)"
| "py_neg PInf = NInf"
| "py_neg NInf = PInf"
| "py_neg NaN = NaN"

fun py_abs :: "double \<Rightarrow> double" where
  "py_abs (Fin a) = Fin \<bar>a\<bar>"
| "py_abs PInf = PInf"
| "py_abs NInf = PInf"
| "py_abs NaN = NaN"

fun py_add :: "double \<Rightarrow> double \<Rightarrow> double" where
  "py_add NaN _ = NaN"
| "py_add _ NaN = NaN"
| "py_add (Fin a) (Fin b) = Fin (a + b)"
| "py_add PInf NInf = NaN"
| "py_add NInf PInf = NaN"
| "py_add PInf _ = PInf"
| "py_add _ PInf = PInf"
| "py_add NInf _ = NInf"
| "py_add _ NInf = NInf"

definition py_sub :: "double \<Rightarrow> double \<Rightarrow> double" where
  "py_sub x y = py_add x (py_neg y)"

definition signed_inf :: "bool \<Rightarrow> double" where
  "signed_inf positive = (if positive then PInf else NInf)"

fun py_mul :: "double \<Rightarrow> double \<Rightarrow> double" where
  "py_mul NaN _ = NaN"
| "py_mul _ NaN = NaN"
| "py_mul (Fin a) (Fin b) = Fin (a * b)"
| "py_mul (Fin a) PInf = (if a = 0 then NaN else signed_inf (a > 0))"
| "py_mul (Fin a) NInf = (if a = 0 then NaN else signed_inf (a < 0))"
| "py_mul PInf (Fin b) = (if b = 0 then NaN else signed_inf (b > 0))"
| "py_mul NInf (Fin b) = (if b = 0 then NaN else signed_inf (b < 0))"
| "py_mul PInf PInf = PInf"
| "py_mul NInf NInf = PInf"
| "py_mul PInf NInf = NInf"
| "py_mul NInf PInf = NInf"

text \<open>
  Division of doubles (the columns are numpy scalars, so a zero divisor gives an
  infinity or NaN, not an exception; the zero is taken as positive). Every division of
  the pipeline is guarded by a test that the divisor is \<open>> 0\<close>.
\<close>

fun py_div :: "double \<Rightarrow> double \<Rightarrow> double" where
  "py_div NaN _ = NaN"
| "py_div _ NaN = NaN"
| "py_div (Fin a) (Fin b) =
     (if b = 0 then (if a = 0 then NaN else signed_inf (a > 0)) else Fin (a / b))"
| "py_div (Fin a) _ = Fin 0"
| "py_div PInf (Fin b) = signed_inf (b \<ge> 0)"
| "py_div NInf (Fin b) = signed_inf (b < 0)"
| "py_div _ _ = NaN"

fun isinf :: "double \<Rightarrow> bool" where
  "isinf PInf = True"
| "isinf NInf = True"
| "isinf _ = False"

text \<open>
  \<^verbatim>\<open>round(x, n)\<close>: the nearest multiple of \<open>10\<^sup>-\<^sup>n\<close>, a tie going to the even
  one; infinities and NaN are returned unchanged.
\<close>

definition round_half_even :: "real \<Rightarrow> int" where
  "round_half_even x =
     (let f = \<lfloor>x\<rfloor>; d = x - of_int f
      in if d < 1 / 2 then f else if d > 1 / 2 then f + 1
         else if even f then f else f + 1)"

definition round_real :: "nat \<Rightarrow> real \<Rightarrow> real" where
  "round_real n x = of_int (round_half_even (x * 10 ^ n)) / 10 ^ n"

fun py_round :: "double \<Rightarrow> nat \<Rightarrow> double" where
  "py_round (Fin a) n = Fin (round_real n a)"
| "py_round x n = x"

section \<open>The data store\<close>

text \<open>
  The three tables of \<^verbatim>\<open>DataProcessor\<close>, each a list of rows in stored order.
  Dates are instants counted in microseconds.
\<close>

record taxpayer =
  tp_Taxpayer_ID :: string
  tp_Business_Name :: string
  tp_Industry_Code :: string
  tp_Industry_Name :: string
  tp_Registration_Date :: int

record tax_return =
  ret_Taxpayer_ID :: string
  ret_Tax_Period :: int
  ret_Gross_Revenue :: double
  ret_Tax_Liability :: double
  ret_Input_Tax_Claim :: double

record audit =
  aud_Taxpayer_ID :: string
  aud_Audit_Start_Date :: int
  aud_Audit_Finding :: string
  aud_Tax_Recovery :: double

record data_processor =
  master_data :: "taxpayer list"
  returns_data :: "tax_return list"
  audit_data :: "audit list"

section \<open>Feature extraction\<close>

record features =
  Taxpayer_ID :: string
  Business_Name :: string
  Industry_Code :: string
  Industry_Name :: string
  Gross_Revenue :: double
  Tax_Liability :: double
  Input_Tax_Claim :: double
  Input_Tax_Ratio :: double
  Revenue_Growth :: double
  Num_Returns :: nat
  Days_Since_Registration :: int

text \<open>
  \<^verbatim>\<open>(datetime.now() - Registration_Date).days\<close>: the whole days of the difference,
  rounded towards minus infinity as \<^verbatim>\<open>timedelta\<close> normalises it.
\<close>

definition days_between :: "int \<Rightarrow> int \<Rightarrow> int" where
  "days_between now registered = (now - registered) div 86400000000"

text \<open>
  \<^verbatim>\<open>get_taxpayer_features\<close>. The reading of the clock taken by
  \<^verbatim>\<open>datetime.now()\<close> is the argument \<open>now\<close>. An operation that calls
  \<^verbatim>\<open>get_taxpayer_features\<close> several times (\<^verbatim>\<open>score_taxpayer\<close>, the explanations,
  the aggregate operations) is given one reading for all its calls: the clock is taken
  not to advance while one operation runs.
\<close>

definition get_taxpayer_features ::
  "data_processor \<Rightarrow> int \<Rightarrow> string \<Rightarrow> features option" where
  "get_taxpayer_features dp now taxpayer_id =
     (let taxpayer = filter (\<lambda>t. tp_Taxpayer_ID t = taxpayer_id) (master_data dp)
      in if taxpayer = [] then None
      else
        let returns = filter (\<lambda>r. ret_Taxpayer_ID r = taxpayer_id) (returns_data dp)
        in if returns = [] then None
        else
          let latest_return = last returns;
              input_tax_ratio =
                (if py_gt (ret_Gross_Revenue latest_return) (Fin 0)
                 then py_div (ret_Input_Tax_Claim latest_return)
                        (ret_Gross_Revenue latest_return)
                 else Fin 0);
              revenue_growth =
                (if length returns > 1
                 then
                   let prev_revenue = ret_Gross_Revenue (returns ! (length returns - 2));
                       curr_revenue = ret_Gross_Revenue latest_return
                   in if py_gt prev_revenue (Fin 0)
                      then py_div (py_sub curr_revenue prev_revenue) prev_revenue
                      else Fin 0
                 else Fin 0)
          in Some \<lparr>Taxpayer_ID = taxpayer_id,
                   Business_Name = tp_Business_Name (hd taxpayer),
                   Industry_Code = tp_Industry_Code (hd taxpayer),
                   Industry_Name = tp_Industry_Name (hd taxpayer),
                   Gross_Revenue = ret_Gross_Revenue latest_return,
                   Tax_Liability = ret_Tax_Liability latest_return,
                   Input_Tax_Claim = ret_Input_Tax_Claim latest_return,
                   Input_Tax_Ratio = input_tax_ratio,
                   Revenue_Growth = revenue_growth,
                   Num_Returns = length returns,
                   Days_Since_Registration =
                     days_between now (tp_Registration_Date (hd taxpayer))\<rparr>)"

text \<open>\<^verbatim>\<open>get_all_taxpayer_features\<close>: the loop over the master table, keeping what is not null.\<close>

definition get_all_taxpayer_features :: "data_processor \<Rightarrow> int \<Rightarrow> features list" where
  "get_all_taxpayer_features dp now =
     List.map_filter (\<lambda>t. get_taxpayer_features dp now (tp_Taxpayer_ID t)) (master_data dp)"

text \<open>
  \<^verbatim>\<open>Series.sum()\<close> skips NaN entries and adds the rest, starting from zero.
\<close>

definition pd_sum :: "double list \<Rightarrow> double" where
  "pd_sum xs = foldl py_add (Fin 0) (filter (\<lambda>x. x \<noteq> NaN) xs)"

text \<open>
  \<^verbatim>\<open>left.merge(right, on=key)\<close>, the inner join: one row for every pair of a left and a
  right row with the same key, in the order of the left rows. The right table of
  \<^verbatim>\<open>get_industry_benchmark\<close> has the key as its only column, so a joined row is the
  left row.
\<close>

definition inner_merge :: "('l \<Rightarrow> 'k) \<Rightarrow> ('r \<Rightarrow> 'k) \<Rightarrow> 'l list \<Rightarrow> 'r list \<Rightarrow> ('l \<times> 'r) list" where
  "inner_merge kl kr ls rs =
     concat (map (\<lambda>l. map (\<lambda>r. (l, r)) (filter (\<lambda>r. kr r = kl l) rs)) ls)"

definition get_industry_benchmark :: "data_processor \<Rightarrow> string \<Rightarrow> double" where
  "get_industry_benchmark dp industry_code =
     (let industry_returns =
            map fst (inner_merge ret_Taxpayer_ID tp_Taxpayer_ID (returns_data dp)
              (filter (\<lambda>t. tp_Industry_Code t = industry_code) (master_data dp)))
      in if industry_returns = [] then Fin (1 / 10)
         else if py_gt (pd_sum (map ret_Gross_Revenue industry_returns)) (Fin 0)
         then py_div (pd_sum (map ret_Input_Tax_Claim industry_returns))
                (pd_sum (map ret_Gross_Revenue industry_returns))
         else Fin (1 / 10))"

section \<open>Anomaly explanation\<close>

text \<open>
  The format \<^verbatim>\<open>:.1f\<close>: one digit after the point, a tie going to the even digit.
\<close>

definition digit_char :: "nat \<Rightarrow> char" where
  "digit_char d = ''0123456789'' ! d"

fun str_nat :: "nat \<Rightarrow> string" where
  "str_nat n = (if n < 10 then [digit_char n] else str_nat (n div 10) @ [digit_char (n mod 10)])"

declare str_nat.simps [simp del]

fun format_1f :: "double \<Rightarrow> string" where
  "format_1f (Fin a) =
     (let n = nat (round_half_even (\<bar>a\<bar> * 10))
      in (if a < 0 then ''-'' else []) @ str_nat (n div 10) @ ''.'' @ [digit_char (n mod 10)])"
| "format_1f PInf = ''inf''"
| "format_1f NInf = ''-inf''"
| "format_1f NaN = ''nan''"

text \<open>\<^verbatim>\<open>sep.join(xs)\<close>.\<close>

fun join :: "string \<Rightarrow> string list \<Rightarrow> string" where
  "join sep [] = []"
| "join sep [x] = x"
| "join sep (x # y # ys) = x @ sep @ join sep (y # ys)"

text \<open>
  \<^verbatim>\<open>_generate_explanation\<close>: the list \<^verbatim>\<open>explanations\<close> receives what the first
  \<^verbatim>\<open>if\<close>/\<^verbatim>\<open>elif\<close> appends (\<open>ratio_rule\<close>), then what the second appends
  (\<open>growth_rule\<close>).
\<close>

definition ratio_deviation :: "features \<Rightarrow> double \<Rightarrow> double" where
  "ratio_deviation features benchmark =
     (if py_gt benchmark (Fin 0)
      then py_div (py_sub (Input_Tax_Ratio features) benchmark) benchmark
      else Fin 0)"

definition ratio_rule :: "double \<Rightarrow> string list" where
  "ratio_rule deviation =
     (if py_gt deviation (Fin 1)
      then [''Input tax claim is '' @ format_1f (py_mul deviation (Fin 100))
              @ ''% higher than industry benchmark'']
      else if py_lt deviation (Fin (- (1 / 2)))
      then [''Input tax claim is '' @ format_1f (py_mul (py_abs deviation) (Fin 100))
              @ ''% lower than industry benchmark'']
      else [])"

definition growth_rule :: "double \<Rightarrow> string list" where
  "growth_rule revenue_growth =
     (if py_gt revenue_growth (Fin (1 / 2))
      then [''Revenue grew by '' @ format_1f (py_mul revenue_growth (Fin 100))
              @ ''% (unusually high)'']
      else if py_lt revenue_growth (Fin (- (3 / 10)))
      then [''Revenue declined by '' @ format_1f (py_mul (py_abs revenue_growth) (Fin 100))
              @ ''%'']
      else [])"

definition generate_explanation :: "features \<Rightarrow> double \<Rightarrow> string" where
  "generate_explanation features benchmark =
     (let explanations =
            ratio_rule (ratio_deviation features benchmark)
            @ growth_rule (Revenue_Growth features)
      in if explanations \<noteq> [] then join '' | '' explanations
         else ''No significant anomalies detected'')"

record anomaly_explanation =
  ex_Taxpayer_ID :: string
  ex_Input_Tax_Ratio :: double
  Industry_Benchmark :: double
  Deviation :: double
  Deviation_Percentage :: double
  ex_Revenue_Growth :: double
  Explanation :: string

text \<open>\<^verbatim>\<open>get_anomaly_explanation\<close>; it reads the data store only, not the fitted model.\<close>

definition get_anomaly_explanation ::
  "data_processor \<Rightarrow> int \<Rightarrow> string \<Rightarrow> anomaly_explanation option" where
  "get_anomaly_explanation dp now taxpayer_id =
     (case get_taxpayer_features dp now taxpayer_id of
        None \<Rightarrow> None
      | Some features \<Rightarrow>
          let industry = Industry_Code features;
              benchmark = get_industry_benchmark dp industry
          in Some \<lparr>ex_Taxpayer_ID = taxpayer_id,
                   ex_Input_Tax_Ratio = py_round (Input_Tax_Ratio features) 4,
                   Industry_Benchmark = py_round benchmark 4,
                   Deviation = py_round (py_sub (Input_Tax_Ratio features) benchmark) 4,
                   Deviation_Percentage =
                     (if py_gt benchmark (Fin 0)
                      then py_round (py_mul (py_div (py_sub (Input_Tax_Ratio features) benchmark)
                                               benchmark) (Fin 100)) 2
                      else Fin 0),
                   ex_Revenue_Growth = py_round (Revenue_Growth features) 4,
                   Explanation = generate_explanation features benchmark\<rparr>)"

section \<open>Errors and the fitted library objects\<close>

text \<open>
  The exceptions that the pipeline or a library call raises. The scalers and the two
  models belong to the library, not to the pipeline: a fitted scaler is the function from
  a row to its standardised row, a fitted outlier model is the function from a row to its
  \<^verbatim>\<open>score_samples\<close> value, a classifier is the function from a row to the probability of
  class 1. A library call may raise, so each returns an error or a value. A scaler not
  yet fitted is \<open>None\<close> (its \<^verbatim>\<open>transform\<close> raises \<^verbatim>\<open>NotFittedError\<close>); a model
  attribute that is still \<^verbatim>\<open>None\<close> is \<open>None\<close> (a method call on it raises
  \<^verbatim>\<open>AttributeError\<close>).
\<close>

datatype error = NotFittedError | AttributeError | KeyError | TypeError | ValueError | IndexError

record anomaly_detector =
  ad_scaler :: "(double list \<Rightarrow> error + double list) option"
  ad_model :: "(double list \<Rightarrow> error + double) option"
  ad_feature_names :: "string list option"

record risk_model =
  predict_proba :: "double list \<Rightarrow> error + double"
  feature_importances :: "error + real list"

record risk_scorer =
  rs_scaler :: "(double list \<Rightarrow> error + double list) option"
  rs_model :: "risk_model option"
  rs_feature_names :: "string list option"

text \<open>The two \<^verbatim>\<open>__init__\<close> methods: the state before training.\<close>

definition anomaly_detector_init :: anomaly_detector where
  "anomaly_detector_init = \<lparr>ad_scaler = None, ad_model = None, ad_feature_names = None\<rparr>"

definition risk_scorer_init :: risk_scorer where
  "risk_scorer_init = \<lparr>rs_scaler = None, rs_model = None, rs_feature_names = None\<rparr>"

section \<open>Anomaly detection\<close>

text \<open>\<^verbatim>\<open>np.where(np.isinf(X), 0, X)\<close>.\<close>

definition zero_infinities :: "double list \<Rightarrow> double list" where
  "zero_infinities X = map (\<lambda>x. if isinf x then Fin 0 else x) X"

text \<open>
  \<^verbatim>\<open>min(1, v)\<close> keeps 1 unless \<open>v < 1\<close>; \<^verbatim>\<open>max(0, m)\<close> keeps 0 unless
  \<open>m > 0\<close>.
\<close>

definition py_min1 :: "double \<Rightarrow> double" where
  "py_min1 v = (if py_lt v (Fin 1) then v else Fin 1)"

definition py_max0 :: "double \<Rightarrow> double" where
  "py_max0 m = (if py_gt m (Fin 0) then m else Fin 0)"

definition normalize_score :: "double \<Rightarrow> double" where
  "normalize_score anomaly_score =
     py_max0 (py_min1 (py_div (py_add anomaly_score (Fin 1)) (Fin 2)))"

record anomaly_result =
  an_Taxpayer_ID :: string
  an_Business_Name :: string
  an_Industry_Name :: string
  an_Input_Tax_Ratio :: double
  an_Revenue_Growth :: double
  Anomaly_Score :: double
  Is_Anomalous :: bool

definition detect_anomaly ::
  "data_processor \<Rightarrow> anomaly_detector \<Rightarrow> int \<Rightarrow> string \<Rightarrow> error + anomaly_result option" where
  "detect_anomaly dp ad now taxpayer_id =
     (case get_taxpayer_features dp now taxpayer_id of
        None \<Rightarrow> Inr None
      | Some features \<Rightarrow>
          let X = [Input_Tax_Ratio features, Revenue_Growth features,
                   Fin (of_int (Days_Since_Registration features))];
              X = zero_infinities X
          in (case ad_scaler ad of
               None \<Rightarrow> Inl NotFittedError
             | Some transform \<Rightarrow>
                 (case transform X of
                    Inl e \<Rightarrow> Inl e
                  | Inr X_scaled \<Rightarrow>
                      (case ad_model ad of
                         None \<Rightarrow> Inl AttributeError
                       | Some score_samples \<Rightarrow>
                           (case score_samples X_scaled of
                              Inl e \<Rightarrow> Inl e
                            | Inr raw \<Rightarrow>
                                let anomaly_score = py_neg raw;
                                    anomaly_score = normalize_score anomaly_score
                                in Inr (Some
                                     \<lparr>an_Taxpayer_ID = taxpayer_id,
                                      an_Business_Name = Business_Name features,
                                      an_Industry_Name = Industry_Name features,
                                      an_Input_Tax_Ratio = py_round (Input_Tax_Ratio features) 4,
                                      an_Revenue_Growth = py_round (Revenue_Growth features) 4,
                                      Anomaly_Score = py_round anomaly_score 4,
                                      Is_Anomalous = py_gt anomaly_score (Fin (1 / 2))\<rparr>))))))"

text \<open>
  The loop of the two aggregate operations: call \<open>f\<close> on each identifier in turn, stop at
  the first exception, append every result that is not null.
\<close>

fun collect :: "('a \<Rightarrow> error + 'b option) \<Rightarrow> 'a list \<Rightarrow> error + 'b list" where
  "collect f [] = Inr []"
| "collect f (x # xs) =
     (case f x of
        Inl e \<Rightarrow> Inl e
      | Inr r \<Rightarrow>
          (case collect f xs of
             Inl e \<Rightarrow> Inl e
           | Inr rs \<Rightarrow> Inr (case r of None \<Rightarrow> rs | Some v \<Rightarrow> v # rs)))"

text \<open>
  \<^verbatim>\<open>sort_values(col, ascending=False)\<close>: larger values first, NaN last. Rows with equal
  keys keep their order here; the library's default sort does not promise that.
  A data frame built from an empty list has no columns, and sorting it by a column name
  raises \<^verbatim>\<open>KeyError\<close>.
\<close>

fun descending_key :: "double \<Rightarrow> nat \<times> real" where
  "descending_key PInf = (0, 0)"
| "descending_key (Fin a) = (1, - a)"
| "descending_key NInf = (2, 0)"
| "descending_key NaN = (3, 0)"

definition sort_values_descending :: "('a \<Rightarrow> double) \<Rightarrow> 'a list \<Rightarrow> error + 'a list" where
  "sort_values_descending col rows =
     (if rows = [] then Inl KeyError else Inr (sort_key (\<lambda>r. descending_key (col r)) rows))"

definition detect_all_anomalies ::
  "data_processor \<Rightarrow> anomaly_detector \<Rightarrow> int \<Rightarrow> error + anomaly_result list" where
  "detect_all_anomalies dp ad now =
     (case collect (detect_anomaly dp ad now) (map tp_Taxpayer_ID (master_data dp)) of
        Inl e \<Rightarrow> Inl e
      | Inr anomalies \<Rightarrow> sort_values_descending Anomaly_Score anomalies)"

section \<open>Risk scoring\<close>

definition get_risk_level :: "double \<Rightarrow> string" where
  "get_risk_level risk_score =
     (if py_ge risk_score (Fin (7 / 10)) then ''CRITICAL''
      else if py_ge risk_score (Fin (1 / 2)) then ''HIGH''
      else if py_ge risk_score (Fin (3 / 10)) then ''MEDIUM''
      else ''LOW'')"

record risk_result =
  rk_Taxpayer_ID :: string
  rk_Business_Name :: string
  rk_Industry_Name :: string
  Risk_Score :: double
  Risk_Level :: string
  rk_Anomaly_Score :: double

definition score_taxpayer ::
  "data_processor \<Rightarrow> anomaly_detector \<Rightarrow> risk_scorer \<Rightarrow> int \<Rightarrow> string
     \<Rightarrow> error + risk_result option" where
  "score_taxpayer dp ad rs now taxpayer_id =
     (case get_taxpayer_features dp now taxpayer_id of
        None \<Rightarrow> Inr None
      | Some features \<Rightarrow>
          (case detect_anomaly dp ad now taxpayer_id of
             Inl e \<Rightarrow> Inl e
           | Inr anomaly \<Rightarrow>
               let anomaly_score =
                     (case anomaly of Some a \<Rightarrow> Anomaly_Score a | None \<Rightarrow> Fin 0);
                   X = [Input_Tax_Ratio features, Revenue_Growth features,
                        Fin (of_int (Days_Since_Registration features)),
                        anomaly_score,
                        Fin (of_nat (Num_Returns features))];
                   X = zero_infinities X
               in (case rs_scaler rs of
                    None \<Rightarrow> Inl NotFittedError
                  | Some transform \<Rightarrow>
                      (case transform X of
                         Inl e \<Rightarrow> Inl e
                       | Inr X_scaled \<Rightarrow>
                           (case rs_model rs of
                              None \<Rightarrow> Inl AttributeError
                            | Some model \<Rightarrow>
                                (case predict_proba model X_scaled of
                                   Inl e \<Rightarrow> Inl e
                                 | Inr risk_score \<Rightarrow>
                                     Inr (Some
                                       \<lparr>rk_Taxpayer_ID = taxpayer_id,
                                        rk_Business_Name = Business_Name features,
                                        rk_Industry_Name = Industry_Name features,
                                        Risk_Score = py_round risk_score 4,
                                        Risk_Level = get_risk_level risk_score,
                                        rk_Anomaly_Score = py_round anomaly_score 4\<rparr>)))))))"

definition score_all_taxpayers ::
  "data_processor \<Rightarrow> anomaly_detector \<Rightarrow> risk_scorer \<Rightarrow> int \<Rightarrow> error + risk_result list" where
  "score_all_taxpayers dp ad rs now =
     (case collect (score_taxpayer dp ad rs now) (map tp_Taxpayer_ID (master_data dp)) of
        Inl e \<Rightarrow> Inl e
      | Inr scores \<Rightarrow> sort_values_descending Risk_Score scores)"

text \<open>\<^verbatim>\<open>get_feature_importance\<close>: null while the model attribute is \<^verbatim>\<open>None\<close>.\<close>

definition get_feature_importance :: "risk_scorer \<Rightarrow> error + (string \<times> real) list option" where
  "get_feature_importance rs =
     (case rs_model rs of
        None \<Rightarrow> Inr None
      | Some model \<Rightarrow>
          (case feature_importances model of
             Inl e \<Rightarrow> Inl e
           | Inr importances \<Rightarrow>
               (case rs_feature_names rs of
                  None \<Rightarrow> Inl TypeError
                | Some names \<Rightarrow>
                    Inr (Some (map (\<lambda>(fname, importance). (fname, round_real 4 importance))
                                 (zip names importances))))))"

definition get_recommendation :: "string \<Rightarrow> string" where
  "get_recommendation risk_level =
     (case map_of
        [(''CRITICAL'', ''Immediate audit recommended. Potential fraud indicators detected.''),
         (''HIGH'', ''Priority audit recommended. Multiple risk factors present.''),
         (''MEDIUM'', ''Routine audit recommended. Some anomalies detected.''),
         (''LOW'', ''Standard monitoring. No immediate action required.'')] risk_level of
        Some r \<Rightarrow> r
      | None \<Rightarrow> ''Review recommended.'')"

record key_factors =
  kf_Input_Tax_Ratio :: double
  kf_Revenue_Growth :: double
  kf_Anomaly_Score :: double
  kf_Num_Returns :: nat

record risk_explanation =
  rx_Taxpayer_ID :: string
  rx_Risk_Score :: double
  rx_Risk_Level :: string
  Key_Factors :: key_factors
  Anomaly_Explanation :: string
  Recommendation :: string

definition get_risk_explanation ::
  "data_processor \<Rightarrow> anomaly_detector \<Rightarrow> risk_scorer \<Rightarrow> int \<Rightarrow> string
     \<Rightarrow> error + risk_explanation option" where
  "get_risk_explanation dp ad rs now taxpayer_id =
     (case score_taxpayer dp ad rs now taxpayer_id of
        Inl e \<Rightarrow> Inl e
      | Inr score_info_opt \<Rightarrow>
          (case (score_info_opt, get_taxpayer_features dp now taxpayer_id) of
             (Some score_info, Some features) \<Rightarrow>
               (case get_anomaly_explanation dp now taxpayer_id of
                  None \<Rightarrow> Inl TypeError
                | Some anomaly_exp \<Rightarrow>
                    Inr (Some
                      \<lparr>rx_Taxpayer_ID = taxpayer_id,
                       rx_Risk_Score = Risk_Score score_info,
                       rx_Risk_Level = Risk_Level score_info,
                       Key_Factors =
                         \<lparr>kf_Input_Tax_Ratio = py_round (Input_Tax_Ratio features) 4,
                          kf_Revenue_Growth = py_round (Revenue_Growth features) 4,
                          kf_Anomaly_Score = rk_Anomaly_Score score_info,
                          kf_Num_Returns = Num_Returns features\<rparr>,
                       Anomaly_Explanation = Explanation anomaly_exp,
                       Recommendation = get_recommendation (Risk_Level score_info)\<rparr>))
           | _ \<Rightarrow> Inr None))"

section \<open>Training data of the risk model\<close>

text \<open>
  \<^verbatim>\<open>left.merge(right, on=key, how='left')\<close>: every left row, in order, once for each
  right row with its key, and once with nulls when there is none.
\<close>

definition left_merge :: "('l \<Rightarrow> 'k) \<Rightarrow> ('r \<Rightarrow> 'k) \<Rightarrow> 'l list \<Rightarrow> 'r list \<Rightarrow> ('l \<times> 'r option) list" where
  "left_merge kl kr ls rs =
     concat (map (\<lambda>l. let ms = filter (\<lambda>r. kr r = kl l) rs
                      in if ms = [] then [(l, None)] else map (\<lambda>r. (l, Some r)) ms) ls)"

text \<open>The maximum of a group of a \<^verbatim>\<open>groupby\<close>; a group is never empty.\<close>

fun group_max :: "int list \<Rightarrow> int" where
  "group_max [] = 0"
| "group_max (x # xs) = fold max xs x"

text \<open>
  The frame \<^verbatim>\<open>audit_labels\<close> of \<^verbatim>\<open>RiskScorer.train\<close>: the flag
  \<^verbatim>\<open>Is_Non_Compliant\<close> of each audit record, then one row per taxpayer identifier (in
  the order of the identifiers) with the maximum of its flags.
\<close>

definition audit_labels :: "data_processor \<Rightarrow> (string \<times> int) list" where
  "audit_labels dp =
     (let flagged =
            map (\<lambda>a. (aud_Taxpayer_ID a,
                       if aud_Audit_Finding a = ''Non-Compliant'' then 1 else 0))
              (audit_data dp)
      in map (\<lambda>k. (k, group_max (map snd (filter (\<lambda>p. fst p = k) flagged))))
           (sort (remdups (map fst flagged))))"

record training_row =
  tr_features :: features
  tr_Anomaly_Score :: "double option"
  Is_Non_Compliant :: int

text \<open>
  The frame \<^verbatim>\<open>training_data\<close>: the feature rows, left-joined with the anomaly scores
  and then with the labels, a missing label filled with 0.
\<close>

definition risk_training_data ::
  "data_processor \<Rightarrow> anomaly_detector \<Rightarrow> int \<Rightarrow> error + training_row list" where
  "risk_training_data dp ad now =
     (let features_df = get_all_taxpayer_features dp now
      in case detect_all_anomalies dp ad now of
           Inl e \<Rightarrow> Inl e
         | Inr anomalies \<Rightarrow>
             let features_df = left_merge Taxpayer_ID an_Taxpayer_ID features_df anomalies;
                 training_data =
                   left_merge (\<lambda>(f, a). Taxpayer_ID f) fst features_df (audit_labels dp)
             in Inr (map (\<lambda>((f, a), l).
                            \<lparr>tr_features = f,
                             tr_Anomaly_Score = map_option Anomaly_Score a,
                             Is_Non_Compliant = (case l of None \<Rightarrow> 0 | Some (k, v) \<Rightarrow> v)\<rparr>)
                       training_data))"

text \<open>
  The matrix \<open>X\<close> and the vector \<open>y\<close> handed to the scaler and the classifier: the five
  feature columns with nulls filled with 0 and infinities replaced by 0, and the labels.
\<close>

definition fillna0 :: "double option \<Rightarrow> double" where
  "fillna0 v = (case v of None \<Rightarrow> Fin 0 | Some NaN \<Rightarrow> Fin 0 | Some x \<Rightarrow> x)"

definition risk_training_set ::
  "data_processor \<Rightarrow> anomaly_detector \<Rightarrow> int \<Rightarrow> error + (double list \<times> int) list" where
  "risk_training_set dp ad now =
     (case risk_training_data dp ad now of
        Inl e \<Rightarrow> Inl e
      | Inr training_data \<Rightarrow>
          Inr (map (\<lambda>row.
                 (zero_infinities
                    (map fillna0
                       [Some (Input_Tax_Ratio (tr_features row)),
                        Some (Revenue_Growth (tr_features row)),
                        Some (Fin (of_int (Days_Since_Registration (tr_features row)))),
                        tr_Anomaly_Score row,
                        Some (Fin (of_nat (Num_Returns (tr_features row))))]),
                  Is_Non_Compliant row))
               training_data))"

section \<open>A small data store and fitted objects for concrete runs\<close>

text \<open>
  Four taxpayers: T1 with two returns (revenue 100 then 150, claims 10 and 10) and a
  compliant and a non-compliant audit; T2 with no return; T3 with one return and one
  compliant audit; T4 with one return whose claim is infinite, and no audit.
\<close>

definition example_dp :: data_processor where
  "example_dp =
     \<lparr>master_data =
        [\<lparr>tp_Taxpayer_ID = ''T1'', tp_Business_Name = ''Alpha'', tp_Industry_Code = ''I1'',
          tp_Industry_Name = ''Retail'', tp_Registration_Date = 0\<rparr>,
         \<lparr>tp_Taxpayer_ID = ''T2'', tp_Business_Name = ''Beta'', tp_Industry_Code = ''I1'',
          tp_Industry_Name = ''Retail'', tp_Registration_Date = 0\<rparr>,
         \<lparr>tp_Taxpayer_ID = ''T3'', tp_Business_Name = ''Gamma'', tp_Industry_Code = ''I1'',
          tp_Industry_Name = ''Retail'', tp_Registration_Date = 86400000000\<rparr>,
         \<lparr>tp_Taxpayer_ID = ''T4'', tp_Business_Name = ''Delta'', tp_Industry_Code = ''I2'',
          tp_Industry_Name = ''Mining'', tp_Registration_Date = 0\<rparr>],
      returns_data =
        [\<lparr>ret_Taxpayer_ID = ''T1'', ret_Tax_Period = 0, ret_Gross_Revenue = Fin 100,
          ret_Tax_Liability = Fin 5, ret_Input_Tax_Claim = Fin 10\<rparr>,
         \<lparr>ret_Taxpayer_ID = ''T3'', ret_Tax_Period = 0, ret_Gross_Revenue = Fin 750,
          ret_Tax_Liability = Fin 40, ret_Input_Tax_Claim = Fin 30\<rparr>,
         \<lparr>ret_Taxpayer_ID = ''T1'', ret_Tax_Period = 1, ret_Gross_Revenue = Fin 150,
          ret_Tax_Liability = Fin 7, ret_Input_Tax_Claim = Fin 10\<rparr>,
         \<lparr>ret_Taxpayer_ID = ''T4'', ret_Tax_Period = 1, ret_Gross_Revenue = Fin 10,
          ret_Tax_Liability = Fin 0, ret_Input_Tax_Claim = PInf\<rparr>],
      audit_data =
        [\<lparr>aud_Taxpayer_ID = ''T1'', aud_Audit_Start_Date = 5,
          aud_Audit_Finding = ''Compliant'', aud_Tax_Recovery = Fin 0\<rparr>,
         \<lparr>aud_Taxpayer_ID = ''T3'', aud_Audit_Start_Date = 6,
          aud_Audit_Finding = ''Compliant'', aud_Tax_Recovery = Fin 0\<rparr>,
         \<lparr>aud_Taxpayer_ID = ''T1'', aud_Audit_Start_Date = 7,
          aud_Audit_Finding = ''Non-Compliant'', aud_Tax_Recovery = Fin 12\<rparr>]\<rparr>"

text \<open>
  A fitted anomaly detector whose scaler leaves a row as it is and whose outlier model
  answers \<open>raw\<close> on every row, and a fitted risk scorer whose classifier answers the
  probability \<open>p\<close> on every row.
\<close>

definition example_ad :: "real \<Rightarrow> anomaly_detector" where
  "example_ad raw =
     \<lparr>ad_scaler = Some (\<lambda>X. Inr X), ad_model = Some (\<lambda>X. Inr (Fin raw)),
      ad_feature_names =
        Some [''Input_Tax_Ratio'', ''Revenue_Growth'', ''Days_Since_Registration'']\<rparr>"

definition example_rs :: "real \<Rightarrow> risk_scorer" where
  "example_rs p =
     \<lparr>rs_scaler = Some (\<lambda>X. Inr X),
      rs_model = Some \<lparr>predict_proba = (\<lambda>X. Inr (Fin p)),
                       feature_importances = Inr [3 / 10, 1 / 5, 1 / 10, 1 / 4, 3 / 20]\<rparr>,
      rs_feature_names =
        Some [''Input_Tax_Ratio'', ''Revenue_Growth'', ''Days_Since_Registration'',
              ''Anomaly_Score'', ''Num_Returns'']\<rparr>"

section \<open>Notions used in the statements\<close>

text \<open>The returns of a taxpayer, in stored order, and whether the master table knows it.\<close>

definition returns_of :: "data_processor \<Rightarrow> string \<Rightarrow> tax_return list" where
  "returns_of dp taxpayer_id =
     filter (\<lambda>r. ret_Taxpayer_ID r = taxpayer_id) (returns_data dp)"

definition known_taxpayer :: "data_processor \<Rightarrow> string \<Rightarrow> bool" where
  "known_taxpayer dp taxpayer_id = (taxpayer_id \<in> set (map tp_Taxpayer_ID (master_data dp)))"



text \<open>
  The findings of the audit records of a taxpayer, in stored order, and whether one of
  its audit records found non-compliance.
\<close>

definition non_compliant_audit :: "data_processor \<Rightarrow> string \<Rightarrow> bool" where
  "non_compliant_audit dp taxpayer_id =
     (\<exists>a \<in> set (audit_data dp).
        aud_Taxpayer_ID a = taxpayer_id \<and> aud_Audit_Finding a = ''Non-Compliant'')"

definition audit_findings_of :: "data_processor \<Rightarrow> string \<Rightarrow> string list" where
  "audit_findings_of dp taxpayer_id =
     map aud_Audit_Finding (filter (\<lambda>a. aud_Taxpayer_ID a = taxpayer_id) (audit_data dp))"

text \<open>
  The feature vector of the end-to-end scenario of the specification (returns with
  revenue 100 then 150 and claims 10 and 10), with the revenue growth left open.
\<close>

definition scenario_features :: "real \<Rightarrow> features" where
  "scenario_features growth =
     \<lparr>Taxpayer_ID = ''T1'', Business_Name = ''Alpha'', Industry_Code = ''I1'',
      Industry_Name = ''Retail'', Gross_Revenue = Fin 150, Tax_Liability = Fin 7,
      Input_Tax_Claim = Fin 10, Input_Tax_Ratio = Fin (1 / 15), Revenue_Growth = Fin growth,
      Num_Returns = 2, Days_Since_Registration = 0\<rparr>"

section \<open>Feature extraction\<close>

lemma py_le_not_gt: "py_le x (Fin 0) \<Longrightarrow> \<not> py_gt x (Fin 0)"
  by (cases x) (auto simp: py_le_def)

lemma features_Some_iff:
  "(\<exists>f. get_taxpayer_features dp now taxpayer_id = Some f)
     \<longleftrightarrow> known_taxpayer dp taxpayer_id \<and> returns_of dp taxpayer_id \<noteq> []"
  by (auto simp: get_taxpayer_features_def known_taxpayer_def returns_of_def Let_def
      filter_empty_conv intro: rev_image_eqI)

lemma ex_T3_known: "known_taxpayer example_dp ''T3''"
  by (simp add: known_taxpayer_def example_dp_def)

lemma ex_T3_returns:
  "returns_of example_dp ''T3'' =
     [\<lparr>ret_Taxpayer_ID = ''T3'', ret_Tax_Period = 0, ret_Gross_Revenue = Fin 750,
       ret_Tax_Liability = Fin 40, ret_Input_Tax_Claim = Fin 30\<rparr>]"
  by (simp add: returns_of_def example_dp_def)

text \<open>
  C7. For every known taxpayer with at least one return the feature vector exists, and
  in it \<open>Input_Tax_Ratio\<close> is 0 whenever the latest gross revenue is \<open>\<le> 0\<close>, and
  \<open>Revenue_Growth\<close> is 0 whenever there are fewer than two returns (whatever the single
  return holds) or the gross revenue of the return before the latest is \<open>\<le> 0\<close>.
\<close>

theorem degenerate_divisions_yield_zero:
  assumes "known_taxpayer dp taxpayer_id" and "returns_of dp taxpayer_id \<noteq> []"
  shows "\<exists>f. get_taxpayer_features dp now taxpayer_id = Some f
    \<and> (py_le (ret_Gross_Revenue (last (returns_of dp taxpayer_id))) (Fin 0)
          \<longrightarrow> Input_Tax_Ratio f = Fin 0)
    \<and> (length (returns_of dp taxpayer_id) < 2 \<longrightarrow> Revenue_Growth f = Fin 0)
    \<and> (2 \<le> length (returns_of dp taxpayer_id)
         \<and> py_le (ret_Gross_Revenue
                    (returns_of dp taxpayer_id ! (length (returns_of dp taxpayer_id) - 2)))
               (Fin 0)
          \<longrightarrow> Revenue_Growth f = Fin 0)"
proof -
  have m: "filter (\<lambda>t. tp_Taxpayer_ID t = taxpayer_id) (master_data dp) \<noteq> []"
    using assms(1) by (auto simp: filter_empty_conv known_taxpayer_def)
  show ?thesis
    using m assms(2)
    by (auto simp: get_taxpayer_features_def returns_of_def Let_def dest: py_le_not_gt)
qed

theorem degenerate_divisions_witness:
  "known_taxpayer example_dp ''T3'' \<and> returns_of example_dp ''T3'' \<noteq> []
   \<and> length (returns_of example_dp ''T3'') < 2
   \<and> (\<exists>f. get_taxpayer_features example_dp 0 ''T3'' = Some f \<and> Revenue_Growth f = Fin 0)"
proof -
  have r: "returns_of example_dp ''T3'' \<noteq> []" by (simp add: ex_T3_returns)
  have l: "length (returns_of example_dp ''T3'') < 2" by (simp add: ex_T3_returns)
  from degenerate_divisions_yield_zero [OF ex_T3_known r, of 0] l ex_T3_known r
  show ?thesis by blast
qed

section \<open>Risk levels\<close>

text \<open>
  C2. The risk level is a step function of the score, each boundary belonging to the
  level above it: \<open>CRITICAL\<close> from 0.7 on (0.70 itself included), \<open>HIGH\<close> on
  \<open>[0.5, 0.7)\<close> (0.5 and 0.6999 included), \<open>MEDIUM\<close> on \<open>[0.3, 0.5)\<close> (0.30 included),
  \<open>LOW\<close> below 0.3 (0.2999 included).
\<close>

theorem risk_level_step_function:
  "(get_risk_level (Fin s) = ''CRITICAL'' \<longleftrightarrow> 7 / 10 \<le> s)
   \<and> (get_risk_level (Fin s) = ''HIGH'' \<longleftrightarrow> 1 / 2 \<le> s \<and> s < 7 / 10)
   \<and> (get_risk_level (Fin s) = ''MEDIUM'' \<longleftrightarrow> 3 / 10 \<le> s \<and> s < 1 / 2)
   \<and> (get_risk_level (Fin s) = ''LOW'' \<longleftrightarrow> s < 3 / 10)
   \<and> get_risk_level (Fin (70 / 100)) = ''CRITICAL''
   \<and> get_risk_level (Fin (6999 / 10000)) = ''HIGH''
   \<and> get_risk_level (Fin (1 / 2)) = ''HIGH''
   \<and> get_risk_level (Fin (30 / 100)) = ''MEDIUM''
   \<and> get_risk_level (Fin (2999 / 10000)) = ''LOW''"
  by (simp add: get_risk_level_def)

section \<open>Industry benchmark\<close>






section \<open>Anomaly score and risk score\<close>




lemma normalize_score_cases:
  "normalize_score (Fin a) = Fin (max 0 (min 1 ((a + 1) / 2)))"
  "normalize_score PInf = Fin 1"
  "normalize_score NInf = Fin 0"
  "normalize_score NaN = Fin 1"
  by (auto simp: normalize_score_def py_max0_def py_min1_def py_lt_def signed_inf_def)




lemma score_taxpayer_result:
  assumes "score_taxpayer dp ad rs now taxpayer_id = Inr (Some r)"
  shows "\<exists>model X p. rs_model rs = Some model \<and> predict_proba model X = Inr p
           \<and> Risk_Score r = py_round p 4 \<and> Risk_Level r = get_risk_level p"
  using assms
  by (fastforce simp: score_taxpayer_def Let_def split: option.splits sum.splits)

lemmas feature_defs = get_taxpayer_features_def Let_def days_between_def py_sub_def
lemmas round_defs = round_real_def round_half_even_def


lemma ex_T1_features:
  "get_taxpayer_features example_dp 0 ''T1'' =
     Some \<lparr>Taxpayer_ID = ''T1'', Business_Name = ''Alpha'', Industry_Code = ''I1'',
           Industry_Name = ''Retail'', Gross_Revenue = Fin 150, Tax_Liability = Fin 7,
           Input_Tax_Claim = Fin 10, Input_Tax_Ratio = Fin (1 / 15), Revenue_Growth = Fin (1 / 2),
           Num_Returns = 2, Days_Since_Registration = 0\<rparr>"
  by (simp add: example_dp_def feature_defs)

lemma ex_T1_anomaly:
  "detect_anomaly example_dp (example_ad raw) 0 ''T1'' =
     Inr (Some \<lparr>an_Taxpayer_ID = ''T1'', an_Business_Name = ''Alpha'',
                 an_Industry_Name = ''Retail'',
                 an_Input_Tax_Ratio = py_round (Fin (1 / 15)) 4,
                 an_Revenue_Growth = py_round (Fin (1 / 2)) 4,
                 Anomaly_Score = py_round (normalize_score (Fin (- raw))) 4,
                 Is_Anomalous = py_gt (normalize_score (Fin (- raw))) (Fin (1 / 2))\<rparr>)"
  by (simp add: detect_anomaly_def ex_T1_features example_ad_def Let_def)






section \<open>Risk level and reported risk score\<close>

lemma ex_T1_score:
  "score_taxpayer example_dp (example_ad (- (1 / 2))) (example_rs p) 0 ''T1'' =
     Inr (Some \<lparr>rk_Taxpayer_ID = ''T1'', rk_Business_Name = ''Alpha'',
                 rk_Industry_Name = ''Retail'',
                 Risk_Score = Fin (round_real 4 p),
                 Risk_Level = get_risk_level (Fin p),
                 rk_Anomaly_Score = Fin (3 / 4)\<rparr>)"
  by (simp add: score_taxpayer_def ex_T1_features ex_T1_anomaly example_rs_def Let_def
      normalize_score_cases round_defs)

text \<open>
  C10. The \<open>Risk_Level\<close> of a row of \<open>score_taxpayer\<close> is the level of the unrounded
  probability, while its \<open>Risk_Score\<close> is the probability rounded to 4 decimal places;
  the probability 0.69996 is reported as \<open>Risk_Score\<close> 0.7 with level \<open>HIGH\<close>, while
  the level of 0.7 is \<open>CRITICAL\<close>.
\<close>

theorem risk_level_of_unrounded_probability:
  "(score_taxpayer dp ad rs now taxpayer_id = Inr (Some k)
      \<longrightarrow> (\<exists>model X p. rs_model rs = Some model \<and> predict_proba model X = Inr p
             \<and> Risk_Score k = py_round p 4 \<and> Risk_Level k = get_risk_level p))
   \<and> py_round (Fin (69996 / 100000)) 4 = Fin (7 / 10)
   \<and> get_risk_level (Fin (69996 / 100000)) = ''HIGH''
   \<and> get_risk_level (py_round (Fin (69996 / 100000)) 4) = ''CRITICAL''"
proof (intro conjI impI)
  assume "score_taxpayer dp ad rs now taxpayer_id = Inr (Some k)"
  then show "\<exists>model X p. rs_model rs = Some model \<and> predict_proba model X = Inr p
             \<and> Risk_Score k = py_round p 4 \<and> Risk_Level k = get_risk_level p"
    by (rule score_taxpayer_result)
next
  show r: "py_round (Fin (69996 / 100000)) 4 = Fin (7 / 10)"
    by (simp add: round_defs Let_def)
  show "get_risk_level (Fin (69996 / 100000)) = ''HIGH''"
    by (simp add: get_risk_level_def)
  show "get_risk_level (py_round (Fin (69996 / 100000)) 4) = ''CRITICAL''"
    unfolding r by (simp add: get_risk_level_def)
qed

theorem risk_level_mismatch_witness:
  "\<exists>k. score_taxpayer example_dp (example_ad (- (1 / 2))) (example_rs (69996 / 100000))
          0 ''T1'' = Inr (Some k)
      \<and> Risk_Score k = Fin (7 / 10)
      \<and> Risk_Level k = ''HIGH''
      \<and> get_risk_level (Risk_Score k) = ''CRITICAL''
      \<and> Risk_Level k \<noteq> get_risk_level (Risk_Score k)"
proof -
  let ?k = "\<lparr>rk_Taxpayer_ID = ''T1'', rk_Business_Name = ''Alpha'',
                 rk_Industry_Name = ''Retail'',
                 Risk_Score = Fin (round_real 4 (69996 / 100000)),
                 Risk_Level = get_risk_level (Fin (69996 / 100000)),
                 rk_Anomaly_Score = Fin (3 / 4)\<rparr>"
  have h: "score_taxpayer example_dp (example_ad (- (1 / 2))) (example_rs (69996 / 100000))
          0 ''T1'' = Inr (Some ?k)"
    by (rule ex_T1_score)
  note t = risk_level_of_unrounded_probability
    [of example_dp "example_ad (- (1 / 2))" "example_rs (69996 / 100000)" 0 "''T1''" ?k]
  from t h obtain model X p where p: "rs_model (example_rs (69996 / 100000)) = Some model"
    "predict_proba model X = Inr p" "Risk_Score ?k = py_round p 4"
    "Risk_Level ?k = get_risk_level p"
    by blast
  from p(1,2) have pv: "p = Fin (69996 / 100000)" by (auto simp: example_rs_def)
  from t have c: "py_round (Fin (69996 / 100000)) 4 = Fin (7 / 10)"
    "get_risk_level (Fin (69996 / 100000)) = ''HIGH''"
    "get_risk_level (py_round (Fin (69996 / 100000)) 4) = ''CRITICAL''"
    by blast+
  have "Risk_Score ?k = Fin (7 / 10)" using p(3) pv c(1) by simp
  moreover have "Risk_Level ?k = ''HIGH''" using p(4) pv c(2) by simp
  moreover have "get_risk_level (Risk_Score ?k) = ''CRITICAL''"
    using c(3) p(3) pv by simp
  ultimately show ?thesis using h by (intro exI [of _ ?k]) simp
qed

section \<open>Taxpayers without a feature vector\<close>

lemma collect_rows:
  "collect f xs = Inr rows \<Longrightarrow> r \<in> set rows \<Longrightarrow> \<exists>x \<in> set xs. f x = Inr (Some r)"
proof (induction xs arbitrary: rows)
  case Nil
  then show ?case by simp
next
  case (Cons x xs)
  then show ?case
    by (fastforce split: sum.splits option.splits)
qed

lemma collect_without_rows:
  "\<forall>x \<in> set xs. f x = Inr None \<or> (\<exists>e. f x = Inl e)
     \<Longrightarrow> collect f xs = Inr [] \<or> (\<exists>e. collect f xs = Inl e)"
  by (induction xs) (auto split: sum.splits option.splits)

lemma sort_values_descending_rows:
  "sort_values_descending col rows = Inr sorted_rows \<Longrightarrow> set sorted_rows = set rows"
  by (auto simp: sort_values_descending_def split: if_splits)

lemma sort_values_descending_empty: "sort_values_descending col [] = Inl KeyError"
  by (simp add: sort_values_descending_def)

lemma detect_anomaly_row:
  "detect_anomaly dp ad now x = Inr (Some r)
     \<Longrightarrow> an_Taxpayer_ID r = x \<and> get_taxpayer_features dp now x \<noteq> None"
  by (auto simp: detect_anomaly_def Let_def split: option.splits sum.splits)

lemma score_taxpayer_row:
  "score_taxpayer dp ad rs now x = Inr (Some r)
     \<Longrightarrow> rk_Taxpayer_ID r = x \<and> get_taxpayer_features dp now x \<noteq> None"
  by (auto simp: score_taxpayer_def Let_def split: option.splits sum.splits)

lemma detect_all_anomalies_rows:
  assumes "detect_all_anomalies dp ad now = Inr rows" and "r \<in> set rows"
  shows "get_taxpayer_features dp now (an_Taxpayer_ID r) \<noteq> None"
proof -
  from assms(1) obtain anomalies where
    c: "collect (detect_anomaly dp ad now) (map tp_Taxpayer_ID (master_data dp)) = Inr anomalies"
    and s: "sort_values_descending Anomaly_Score anomalies = Inr rows"
    by (auto simp: detect_all_anomalies_def split: sum.splits)
  from s assms(2) have "r \<in> set anomalies"
    by (simp add: sort_values_descending_rows)
  from collect_rows [OF c this] obtain x where "detect_anomaly dp ad now x = Inr (Some r)"
    by blast
  then show ?thesis by (auto dest: detect_anomaly_row)
qed

lemma score_all_taxpayers_rows:
  assumes "score_all_taxpayers dp ad rs now = Inr rows" and "r \<in> set rows"
  shows "get_taxpayer_features dp now (rk_Taxpayer_ID r) \<noteq> None"
proof -
  from assms(1) obtain scores where
    c: "collect (score_taxpayer dp ad rs now) (map tp_Taxpayer_ID (master_data dp)) = Inr scores"
    and s: "sort_values_descending Risk_Score scores = Inr rows"
    by (auto simp: score_all_taxpayers_def split: sum.splits)
  from s assms(2) have "r \<in> set scores"
    by (simp add: sort_values_descending_rows)
  from collect_rows [OF c this] obtain x where "score_taxpayer dp ad rs now x = Inr (Some r)"
    by blast
  then show ?thesis by (auto dest: score_taxpayer_row)
qed

lemma features_None_iff:
  "get_taxpayer_features dp now taxpayer_id = None
     \<longleftrightarrow> \<not> known_taxpayer dp taxpayer_id \<or> returns_of dp taxpayer_id = []"
  using features_Some_iff [of dp now taxpayer_id] by auto

lemma ex_all_anomaly_ids:
  "(case detect_all_anomalies example_dp (example_ad (- (1 / 2))) 0 of
      Inl e \<Rightarrow> False
    | Inr anomalies \<Rightarrow> map an_Taxpayer_ID anomalies = [''T1'', ''T3'', ''T4'']
        \<and> map Anomaly_Score anomalies = [Fin (3 / 4), Fin (3 / 4), Fin (3 / 4)])"
  by code_simp

lemma ex_all_score_ids:
  "(case score_all_taxpayers example_dp (example_ad (- (1 / 2))) (example_rs (1 / 5)) 0 of
      Inl e \<Rightarrow> False
    | Inr scores \<Rightarrow> map rk_Taxpayer_ID scores = [''T1'', ''T3'', ''T4'']
        \<and> map Risk_Score scores = [Fin (1 / 5), Fin (1 / 5), Fin (1 / 5)])"
  by code_simp

lemma ex_T2_features: "get_taxpayer_features example_dp now ''T2'' = None"
  by (simp add: get_taxpayer_features_def example_dp_def)

text \<open>
  C4. \<open>get_taxpayer_features\<close> returns null exactly for a taxpayer that is unknown or
  has no return, and such a taxpayer has no row in what \<open>detect_all_anomalies\<close> and
  \<open>score_all_taxpayers\<close> return.
\<close>

theorem no_features_no_row:
  "(get_taxpayer_features dp now taxpayer_id = None
      \<longleftrightarrow> \<not> known_taxpayer dp taxpayer_id \<or> returns_of dp taxpayer_id = [])
   \<and> (get_taxpayer_features dp now taxpayer_id = None
        \<and> detect_all_anomalies dp ad now = Inr anomalies
      \<longrightarrow> taxpayer_id \<notin> set (map an_Taxpayer_ID anomalies))
   \<and> (get_taxpayer_features dp now taxpayer_id = None
        \<and> score_all_taxpayers dp ad rs now = Inr scores
      \<longrightarrow> taxpayer_id \<notin> set (map rk_Taxpayer_ID scores))"
proof (intro conjI impI)
  show "get_taxpayer_features dp now taxpayer_id = None
      \<longleftrightarrow> \<not> known_taxpayer dp taxpayer_id \<or> returns_of dp taxpayer_id = []"
    by (rule features_None_iff)
next
  assume a: "get_taxpayer_features dp now taxpayer_id = None
        \<and> detect_all_anomalies dp ad now = Inr anomalies"
  show "taxpayer_id \<notin> set (map an_Taxpayer_ID anomalies)"
  proof
    assume "taxpayer_id \<in> set (map an_Taxpayer_ID anomalies)"
    then obtain r where "r \<in> set anomalies" "an_Taxpayer_ID r = taxpayer_id" by auto
    with a detect_all_anomalies_rows [of dp ad now anomalies r] show False by simp
  qed
next
  assume a: "get_taxpayer_features dp now taxpayer_id = None
        \<and> score_all_taxpayers dp ad rs now = Inr scores"
  show "taxpayer_id \<notin> set (map rk_Taxpayer_ID scores)"
  proof
    assume "taxpayer_id \<in> set (map rk_Taxpayer_ID scores)"
    then obtain r where "r \<in> set scores" "rk_Taxpayer_ID r = taxpayer_id" by auto
    with a score_all_taxpayers_rows [of dp ad rs now scores r] show False by simp
  qed
qed

theorem no_features_no_row_witness:
  "get_taxpayer_features example_dp 0 ''T2'' = None
   \<and> known_taxpayer example_dp ''T2'' \<and> returns_of example_dp ''T2'' = []
   \<and> (\<exists>anomalies. detect_all_anomalies example_dp (example_ad (- (1 / 2))) 0 = Inr anomalies
          \<and> map an_Taxpayer_ID anomalies = [''T1'', ''T3'', ''T4'']
          \<and> ''T2'' \<notin> set (map an_Taxpayer_ID anomalies))
   \<and> (\<exists>scores. score_all_taxpayers example_dp (example_ad (- (1 / 2))) (example_rs (1 / 5)) 0
            = Inr scores
          \<and> map rk_Taxpayer_ID scores = [''T1'', ''T3'', ''T4'']
          \<and> ''T2'' \<notin> set (map rk_Taxpayer_ID scores))"
proof -
  obtain anomalies where
    a: "detect_all_anomalies example_dp (example_ad (- (1 / 2))) 0 = Inr anomalies"
      "map an_Taxpayer_ID anomalies = [''T1'', ''T3'', ''T4'']"
    using ex_all_anomaly_ids by (auto split: sum.splits)
  obtain scores where
    s: "score_all_taxpayers example_dp (example_ad (- (1 / 2))) (example_rs (1 / 5)) 0 = Inr scores"
      "map rk_Taxpayer_ID scores = [''T1'', ''T3'', ''T4'']"
    using ex_all_score_ids by (auto split: sum.splits)
  note t = no_features_no_row [of example_dp 0 "''T2''" "example_ad (- (1 / 2))" anomalies
      "example_rs (1 / 5)" scores]
  have n: "get_taxpayer_features example_dp 0 ''T2'' = None" by (rule ex_T2_features)
  have k: "known_taxpayer example_dp ''T2''" by (simp add: known_taxpayer_def example_dp_def)
  from t n k have r: "returns_of example_dp ''T2'' = []" by blast
  from t n a(1) have na: "''T2'' \<notin> set (map an_Taxpayer_ID anomalies)" by blast
  from t n s(1) have ns: "''T2'' \<notin> set (map rk_Taxpayer_ID scores)" by blast
  have A: "\<exists>anomalies. detect_all_anomalies example_dp (example_ad (- (1 / 2))) 0 = Inr anomalies
          \<and> map an_Taxpayer_ID anomalies = [''T1'', ''T3'', ''T4'']
          \<and> ''T2'' \<notin> set (map an_Taxpayer_ID anomalies)"
    using a na by (intro exI [of _ anomalies] conjI)
  have S: "\<exists>scores. score_all_taxpayers example_dp (example_ad (- (1 / 2))) (example_rs (1 / 5)) 0
            = Inr scores
          \<and> map rk_Taxpayer_ID scores = [''T1'', ''T3'', ''T4'']
          \<and> ''T2'' \<notin> set (map rk_Taxpayer_ID scores)"
    using s ns by (intro exI [of _ scores] conjI)
  from n k r A S show ?thesis by (intro conjI)
qed

section \<open>Inference before training\<close>

lemma detect_anomaly_untrained:
  "detect_anomaly dp anomaly_detector_init now x =
     (if get_taxpayer_features dp now x = None then Inr None else Inl NotFittedError)"
  by (simp add: detect_anomaly_def anomaly_detector_init_def Let_def split: option.splits)

lemma score_taxpayer_untrained:
  "get_taxpayer_features dp now x = None
     \<Longrightarrow> score_taxpayer dp ad risk_scorer_init now x = Inr None"
  "get_taxpayer_features dp now x \<noteq> None
     \<Longrightarrow> \<exists>e. score_taxpayer dp ad risk_scorer_init now x = Inl e"
  by (auto simp: score_taxpayer_def risk_scorer_init_def Let_def split: option.splits sum.splits)

lemma get_risk_explanation_untrained:
  "get_taxpayer_features dp now x = None
     \<Longrightarrow> get_risk_explanation dp ad risk_scorer_init now x = Inr None"
  "get_taxpayer_features dp now x \<noteq> None
     \<Longrightarrow> \<exists>e. get_risk_explanation dp ad risk_scorer_init now x = Inl e"
  using score_taxpayer_untrained [of dp now x ad]
  by (auto simp: get_risk_explanation_def split: sum.splits)

lemma detect_all_anomalies_untrained:
  "\<exists>e. detect_all_anomalies dp anomaly_detector_init now = Inl e"
proof -
  have "\<forall>x \<in> set (map tp_Taxpayer_ID (master_data dp)).
          detect_anomaly dp anomaly_detector_init now x = Inr None
          \<or> (\<exists>e. detect_anomaly dp anomaly_detector_init now x = Inl e)"
    by (simp add: detect_anomaly_untrained)
  from collect_without_rows [OF this] show ?thesis
    by (auto simp: detect_all_anomalies_def sort_values_descending_empty)
qed

lemma score_all_taxpayers_untrained:
  "\<exists>e. score_all_taxpayers dp ad risk_scorer_init now = Inl e"
proof -
  have "\<forall>x \<in> set (map tp_Taxpayer_ID (master_data dp)).
          score_taxpayer dp ad risk_scorer_init now x = Inr None
          \<or> (\<exists>e. score_taxpayer dp ad risk_scorer_init now x = Inl e)"
    using score_taxpayer_untrained by blast
  from collect_without_rows [OF this] show ?thesis
    by (auto simp: score_all_taxpayers_def sort_values_descending_empty)
qed

text \<open>
  C9, as the code has it. Before training, \<open>detect_anomaly\<close>, \<open>score_taxpayer\<close> and
  \<open>get_risk_explanation\<close> fail with an error for every taxpayer that has a feature
  vector, and \<open>detect_all_anomalies\<close> and \<open>score_all_taxpayers\<close> fail with an error;
  for a taxpayer without a feature vector the operations on one taxpayer return null;
  \<open>get_anomaly_explanation\<close> does not read the model and returns an explanation
  exactly for the taxpayers with a feature vector; \<open>get_feature_importance\<close> returns
  null.
\<close>

theorem inference_before_training:
  "(get_taxpayer_features dp now taxpayer_id \<noteq> None
      \<longrightarrow> detect_anomaly dp anomaly_detector_init now taxpayer_id = Inl NotFittedError
        \<and> (\<exists>e. score_taxpayer dp ad risk_scorer_init now taxpayer_id = Inl e)
        \<and> (\<exists>e. get_risk_explanation dp ad risk_scorer_init now taxpayer_id = Inl e)
        \<and> get_anomaly_explanation dp now taxpayer_id \<noteq> None)
   \<and> (\<exists>e. detect_all_anomalies dp anomaly_detector_init now = Inl e)
   \<and> (\<exists>e. score_all_taxpayers dp ad risk_scorer_init now = Inl e)
   \<and> (get_taxpayer_features dp now taxpayer_id = None
      \<longrightarrow> detect_anomaly dp anomaly_detector_init now taxpayer_id = Inr None
        \<and> score_taxpayer dp ad risk_scorer_init now taxpayer_id = Inr None
        \<and> get_risk_explanation dp ad risk_scorer_init now taxpayer_id = Inr None
        \<and> get_anomaly_explanation dp now taxpayer_id = None)
   \<and> get_feature_importance risk_scorer_init = Inr None"
proof (intro conjI impI)
  show "\<exists>e. detect_all_anomalies dp anomaly_detector_init now = Inl e"
    by (rule detect_all_anomalies_untrained)
  show "\<exists>e. score_all_taxpayers dp ad risk_scorer_init now = Inl e"
    by (rule score_all_taxpayers_untrained)
  show "get_feature_importance risk_scorer_init = Inr None"
    by (simp add: get_feature_importance_def risk_scorer_init_def)
next
  assume f: "get_taxpayer_features dp now taxpayer_id \<noteq> None"
  then show "detect_anomaly dp anomaly_detector_init now taxpayer_id = Inl NotFittedError"
    by (simp add: detect_anomaly_untrained)
  from f show "\<exists>e. score_taxpayer dp ad risk_scorer_init now taxpayer_id = Inl e"
    by (rule score_taxpayer_untrained)
  from f show "\<exists>e. get_risk_explanation dp ad risk_scorer_init now taxpayer_id = Inl e"
    by (rule get_risk_explanation_untrained)
  from f show "get_anomaly_explanation dp now taxpayer_id \<noteq> None"
    by (auto simp: get_anomaly_explanation_def Let_def)
next
  assume n: "get_taxpayer_features dp now taxpayer_id = None"
  then show "detect_anomaly dp anomaly_detector_init now taxpayer_id = Inr None"
    by (simp add: detect_anomaly_untrained)
  from n show "score_taxpayer dp ad risk_scorer_init now taxpayer_id = Inr None"
    by (rule score_taxpayer_untrained)
  from n show "get_risk_explanation dp ad risk_scorer_init now taxpayer_id = Inr None"
    by (rule get_risk_explanation_untrained)
  from n show "get_anomaly_explanation dp now taxpayer_id = None"
    by (simp add: get_anomaly_explanation_def)
qed

theorem inference_before_training_witness:
  "get_taxpayer_features example_dp 0 ''T1'' \<noteq> None
   \<and> detect_anomaly example_dp anomaly_detector_init 0 ''T1'' = Inl NotFittedError
   \<and> score_taxpayer example_dp (example_ad (- (1 / 2))) risk_scorer_init 0 ''T1''
        = Inl NotFittedError
   \<and> get_risk_explanation example_dp (example_ad (- (1 / 2))) risk_scorer_init 0 ''T1''
        = Inl NotFittedError
   \<and> detect_all_anomalies example_dp anomaly_detector_init 0 = Inl NotFittedError
   \<and> get_taxpayer_features example_dp 0 ''T2'' = None
   \<and> detect_anomaly example_dp anomaly_detector_init 0 ''T2'' = Inr None
   \<and> score_taxpayer example_dp (example_ad (- (1 / 2))) risk_scorer_init 0 ''T2'' = Inr None"
proof -
  note t1 = inference_before_training
    [of example_dp 0 "''T1''" "example_ad (- (1 / 2))"]
  note t2 = inference_before_training
    [of example_dp 0 "''T2''" "example_ad (- (1 / 2))"]
  have f1: "get_taxpayer_features example_dp 0 ''T1'' \<noteq> None" by (simp add: ex_T1_features)
  have f2: "get_taxpayer_features example_dp 0 ''T2'' = None" by (rule ex_T2_features)
  from t1 f1 have a: "detect_anomaly example_dp anomaly_detector_init 0 ''T1'' = Inl NotFittedError"
    by blast
  have b: "score_taxpayer example_dp (example_ad (- (1 / 2))) risk_scorer_init 0 ''T1''
        = Inl NotFittedError"
    by (simp add: score_taxpayer_def ex_T1_features ex_T1_anomaly risk_scorer_init_def Let_def)
  then have c: "get_risk_explanation example_dp (example_ad (- (1 / 2))) risk_scorer_init 0 ''T1''
        = Inl NotFittedError"
    by (simp add: get_risk_explanation_def)
  have d: "detect_all_anomalies example_dp anomaly_detector_init 0 = Inl NotFittedError"
    by (simp add: detect_all_anomalies_def detect_anomaly_untrained ex_T1_features
        example_dp_def [THEN arg_cong [of _ _ master_data]])
  from t2 f2 have e: "detect_anomaly example_dp anomaly_detector_init 0 ''T2'' = Inr None"
    "score_taxpayer example_dp (example_ad (- (1 / 2))) risk_scorer_init 0 ''T2'' = Inr None"
    by blast+
  from f1 a b c d f2 e show ?thesis by (intro conjI)
qed

text \<open>
  The claim C9 as stated fails: before training \<open>get_feature_importance\<close> returns null,
  \<open>detect_anomaly\<close> returns null for a taxpayer without returns, and
  \<open>get_anomaly_explanation\<close> returns an explanation, none of them raising.
\<close>

theorem silent_before_training_counterexample:
  "get_feature_importance risk_scorer_init = Inr None
   \<and> detect_anomaly example_dp anomaly_detector_init 0 ''T2'' = Inr None
   \<and> map_option Explanation (get_anomaly_explanation example_dp 0 ''T1'')
       = Some ''No significant anomalies detected''"
  apply (intro conjI)
    apply (simp add: get_feature_importance_def risk_scorer_init_def)
   apply (simp add: detect_anomaly_untrained ex_T2_features)
  apply code_simp
  done

section \<open>Dependence on the clock\<close>

lemma features_same_days:
  assumes "\<forall>t \<in> set (master_data dp). tp_Taxpayer_ID t = taxpayer_id
             \<longrightarrow> days_between now1 (tp_Registration_Date t)
                  = days_between now2 (tp_Registration_Date t)"
  shows "get_taxpayer_features dp now1 taxpayer_id = get_taxpayer_features dp now2 taxpayer_id"
proof (cases "filter (\<lambda>t. tp_Taxpayer_ID t = taxpayer_id) (master_data dp)")
  case Nil
  then show ?thesis by (simp add: get_taxpayer_features_def)
next
  case (Cons t ts)
  then have "t \<in> set (filter (\<lambda>t. tp_Taxpayer_ID t = taxpayer_id) (master_data dp))"
    by simp
  then have "t \<in> set (master_data dp)" "tp_Taxpayer_ID t = taxpayer_id" by simp_all
  with assms have "days_between now1 (tp_Registration_Date t)
                  = days_between now2 (tp_Registration_Date t)" by blast
  with Cons show ?thesis by (simp add: get_taxpayer_features_def Let_def)
qed

lemma features_up_to_days:
  "map_option (\<lambda>f. f\<lparr>Days_Since_Registration := 0\<rparr>) (get_taxpayer_features dp now1 taxpayer_id)
     = map_option (\<lambda>f. f\<lparr>Days_Since_Registration := 0\<rparr>)
         (get_taxpayer_features dp now2 taxpayer_id)"
  by (simp add: get_taxpayer_features_def Let_def)

text \<open>
  C3, as the code has it. The result of \<open>get_taxpayer_features\<close> depends on the time of
  the call, and only through \<open>Days_Since_Registration\<close>: two calls with the same
  taxpayer identifier are null together and agree on every other field; when the two
  times are the same whole number of days after the registration date of the taxpayer,
  the two calls return equal results, and so do \<open>detect_anomaly\<close>, \<open>score_taxpayer\<close>
  and the two explanation operations.
\<close>

theorem clock_enters_through_days_only:
  "(get_taxpayer_features dp now1 taxpayer_id = None
      \<longleftrightarrow> get_taxpayer_features dp now2 taxpayer_id = None)
   \<and> map_option (\<lambda>f. f\<lparr>Days_Since_Registration := 0\<rparr>)
         (get_taxpayer_features dp now1 taxpayer_id)
       = map_option (\<lambda>f. f\<lparr>Days_Since_Registration := 0\<rparr>)
           (get_taxpayer_features dp now2 taxpayer_id)
   \<and> ((\<forall>t \<in> set (master_data dp). tp_Taxpayer_ID t = taxpayer_id
           \<longrightarrow> days_between now1 (tp_Registration_Date t)
                = days_between now2 (tp_Registration_Date t))
      \<longrightarrow> get_taxpayer_features dp now1 taxpayer_id = get_taxpayer_features dp now2 taxpayer_id
        \<and> detect_anomaly dp ad now1 taxpayer_id = detect_anomaly dp ad now2 taxpayer_id
        \<and> score_taxpayer dp ad rs now1 taxpayer_id = score_taxpayer dp ad rs now2 taxpayer_id
        \<and> get_anomaly_explanation dp now1 taxpayer_id
            = get_anomaly_explanation dp now2 taxpayer_id
        \<and> get_risk_explanation dp ad rs now1 taxpayer_id
            = get_risk_explanation dp ad rs now2 taxpayer_id)"
proof (intro conjI impI)
  show "get_taxpayer_features dp now1 taxpayer_id = None
      \<longleftrightarrow> get_taxpayer_features dp now2 taxpayer_id = None"
    by (simp add: features_None_iff)
  show "map_option (\<lambda>f. f\<lparr>Days_Since_Registration := 0\<rparr>)
         (get_taxpayer_features dp now1 taxpayer_id)
       = map_option (\<lambda>f. f\<lparr>Days_Since_Registration := 0\<rparr>)
           (get_taxpayer_features dp now2 taxpayer_id)"
    by (rule features_up_to_days)
next
  assume "\<forall>t \<in> set (master_data dp). tp_Taxpayer_ID t = taxpayer_id
           \<longrightarrow> days_between now1 (tp_Registration_Date t)
                = days_between now2 (tp_Registration_Date t)"
  then have f: "get_taxpayer_features dp now1 taxpayer_id
                  = get_taxpayer_features dp now2 taxpayer_id"
    by (rule features_same_days)
  then show "get_taxpayer_features dp now1 taxpayer_id
                  = get_taxpayer_features dp now2 taxpayer_id" .
  show d: "detect_anomaly dp ad now1 taxpayer_id = detect_anomaly dp ad now2 taxpayer_id"
    unfolding detect_anomaly_def f by (rule refl)
  show s: "score_taxpayer dp ad rs now1 taxpayer_id
      = score_taxpayer dp ad rs now2 taxpayer_id"
    unfolding score_taxpayer_def f d by (rule refl)
  show e: "get_anomaly_explanation dp now1 taxpayer_id
            = get_anomaly_explanation dp now2 taxpayer_id"
    unfolding get_anomaly_explanation_def f by (rule refl)
  show "get_risk_explanation dp ad rs now1 taxpayer_id
            = get_risk_explanation dp ad rs now2 taxpayer_id"
    unfolding get_risk_explanation_def f s e by (rule refl)
qed

theorem clock_same_day_witness:
  "days_between 0 0 = days_between 1000 0
   \<and> get_taxpayer_features example_dp 0 ''T1'' = get_taxpayer_features example_dp 1000 ''T1''
   \<and> detect_anomaly example_dp (example_ad (- (1 / 2))) 0 ''T1''
       = detect_anomaly example_dp (example_ad (- (1 / 2))) 1000 ''T1''
   \<and> score_taxpayer example_dp (example_ad (- (1 / 2))) (example_rs (1 / 5)) 0 ''T1''
       = score_taxpayer example_dp (example_ad (- (1 / 2))) (example_rs (1 / 5)) 1000 ''T1''"
proof -
  have h: "\<forall>t \<in> set (master_data example_dp). tp_Taxpayer_ID t = ''T1''
           \<longrightarrow> days_between 0 (tp_Registration_Date t)
                = days_between 1000 (tp_Registration_Date t)"
    by (simp add: example_dp_def days_between_def)
  have d: "days_between 0 0 = days_between 1000 0" by (simp add: days_between_def)
  from clock_enters_through_days_only
    [of example_dp 0 "''T1''" 1000 "example_ad (- (1 / 2))" "example_rs (1 / 5)"] h d
  show ?thesis by blast
qed

text \<open>
  The claim C3 as stated fails: a call at the registration instant and a call one day
  later return feature vectors that differ (0 and 1 day since registration).
\<close>

theorem features_change_with_clock_counterexample:
  "get_taxpayer_features example_dp 0 ''T1''
     \<noteq> get_taxpayer_features example_dp 86400000000 ''T1''
   \<and> map_option Days_Since_Registration (get_taxpayer_features example_dp 0 ''T1'') = Some 0
   \<and> map_option Days_Since_Registration
        (get_taxpayer_features example_dp 86400000000 ''T1'') = Some 1"
  by (simp add: example_dp_def feature_defs)

section \<open>Training labels\<close>

lemma non_compliant_audit_iff:
  "non_compliant_audit dp k \<longleftrightarrow> ''Non-Compliant'' \<in> set (audit_findings_of dp k)"
  by (auto simp: non_compliant_audit_def audit_findings_of_def image_iff)

lemma fold_max_flags:
  "x \<in> {0, 1} \<Longrightarrow> set xs \<subseteq> {0, 1}
     \<Longrightarrow> fold max xs (x :: int) = (if x = 1 \<or> 1 \<in> set xs then 1 else 0)"
  by (induction xs arbitrary: x) (auto simp: max_def)

lemma group_max_flags:
  "xs \<noteq> [] \<Longrightarrow> set xs \<subseteq> {0, 1} \<Longrightarrow> group_max xs = (if 1 \<in> set xs then 1 else 0)"
  by (cases xs) (auto simp: fold_max_flags)

lemma left_merge_member:
  assumes "(l, r) \<in> set (left_merge kl kr ls rs)"
  shows "l \<in> set ls"
    and "r = None \<Longrightarrow> \<forall>x \<in> set rs. kr x \<noteq> kl l"
    and "r = Some x \<Longrightarrow> x \<in> set rs \<and> kr x = kl l"
  using assms
  by (auto simp: left_merge_def Let_def filter_empty_conv split: if_splits)

lemma left_merge_keeps_left: "fst ` set (left_merge kl kr ls rs) = set ls"
proof
  show "fst ` set (left_merge kl kr ls rs) \<subseteq> set ls"
    by (auto dest: left_merge_member(1))
next
  show "set ls \<subseteq> fst ` set (left_merge kl kr ls rs)"
  proof
    fix l assume l: "l \<in> set ls"
    let ?ms = "filter (\<lambda>r. kr r = kl l) rs"
    show "l \<in> fst ` set (left_merge kl kr ls rs)"
    proof (cases "?ms = []")
      case True
      with l have "(l, None) \<in> set (left_merge kl kr ls rs)"
        by (auto simp: left_merge_def Let_def intro!: bexI [of _ l])
      then show ?thesis by force
    next
      case False
      then obtain m where "m \<in> set ?ms" by (cases ?ms) auto
      with l False have "(l, Some m) \<in> set (left_merge kl kr ls rs)"
        by (auto simp: left_merge_def Let_def intro!: bexI [of _ l])
      then show ?thesis by force
    qed
  qed
qed

lemma audit_labels_member:
  assumes "(k, v) \<in> set (audit_labels dp)"
  shows "v = (if non_compliant_audit dp k then 1 else 0)"
proof -
  let ?flagged = "map (\<lambda>a. (aud_Taxpayer_ID a,
                       if aud_Audit_Finding a = ''Non-Compliant'' then 1 else (0 :: int)))
                    (audit_data dp)"
  let ?flags = "map snd (filter (\<lambda>p. fst p = k) ?flagged)"
  from assms have k: "k \<in> set (map fst ?flagged)" and v: "v = group_max ?flags"
    by (auto simp: audit_labels_def Let_def)
  have flags: "?flags = map (\<lambda>a. if aud_Audit_Finding a = ''Non-Compliant'' then 1 else 0)
                          (filter (\<lambda>a. aud_Taxpayer_ID a = k) (audit_data dp))"
    by (simp add: filter_map comp_def)
  from k have ne: "?flags \<noteq> []"
    unfolding flags by (auto simp: filter_empty_conv)
  have b: "set ?flags \<subseteq> {0, 1}"
    unfolding flags by auto
  have "1 \<in> set ?flags \<longleftrightarrow> non_compliant_audit dp k"
    unfolding flags non_compliant_audit_def by (auto split: if_splits)
  with group_max_flags [OF ne b] v show ?thesis by simp
qed

lemma audit_labels_keys:
  "fst ` set (audit_labels dp) = aud_Taxpayer_ID ` set (audit_data dp)"
  by (auto simp: audit_labels_def Let_def image_iff)

lemma ex_training_labels:
  "(case risk_training_data example_dp (example_ad (- (1 / 2))) 0 of
      Inl e \<Rightarrow> False
    | Inr rows \<Rightarrow>
        map (\<lambda>row. (Taxpayer_ID (tr_features row), Is_Non_Compliant row)) rows
          = [(''T1'', 1), (''T3'', 0), (''T4'', 0)])"
  by code_simp

lemma ex_findings:
  "audit_findings_of example_dp ''T1'' = [''Compliant'', ''Non-Compliant'']"
  "audit_findings_of example_dp ''T3'' = [''Compliant'']"
  "audit_findings_of example_dp ''T4'' = []"
  by (simp_all add: audit_findings_of_def example_dp_def)

text \<open>
  C5. In the training data of the risk model, the label of each row is 1 when one of the
  audit records of its taxpayer has the finding \<open>Non-Compliant\<close> and 0 otherwise (the
  maximum of the 0/1 flags of its audit records, 0 without any): findings
  \<open>[Compliant, Non-Compliant]\<close> give 1, \<open>[Compliant]\<close> gives 0, no audit record gives
  0. The rows cover exactly the taxpayers with a feature vector.
\<close>

theorem training_label_is_any_non_compliant:
  assumes "risk_training_data dp ad now = Inr rows"
  shows "(\<forall>row \<in> set rows.
            Is_Non_Compliant row
              = (if ''Non-Compliant''
                      \<in> set (audit_findings_of dp (Taxpayer_ID (tr_features row)))
                 then 1 else 0))
    \<and> (\<forall>row \<in> set rows.
          (audit_findings_of dp (Taxpayer_ID (tr_features row))
             = [''Compliant'', ''Non-Compliant''] \<longrightarrow> Is_Non_Compliant row = 1)
        \<and> (audit_findings_of dp (Taxpayer_ID (tr_features row)) = [''Compliant'']
             \<longrightarrow> Is_Non_Compliant row = 0)
        \<and> (audit_findings_of dp (Taxpayer_ID (tr_features row)) = []
             \<longrightarrow> Is_Non_Compliant row = 0))
    \<and> set (map tr_features rows) = set (get_all_taxpayer_features dp now)"
proof -
  from assms obtain anomalies where
    a: "detect_all_anomalies dp ad now = Inr anomalies"
    by (auto simp: risk_training_data_def Let_def split: sum.splits)
  let ?features_df = "left_merge Taxpayer_ID an_Taxpayer_ID
                        (get_all_taxpayer_features dp now) anomalies"
  let ?training_data = "left_merge (\<lambda>(f, a). Taxpayer_ID f) fst ?features_df (audit_labels dp)"
  let ?row = "\<lambda>((f, a), l).
                \<lparr>tr_features = f, tr_Anomaly_Score = map_option Anomaly_Score a,
                 Is_Non_Compliant = (case l of None \<Rightarrow> 0 | Some (k, v) \<Rightarrow> v)\<rparr>"
  from assms a have rows: "rows = map ?row ?training_data"
    by (simp add: risk_training_data_def Let_def)
  have labels: "Is_Non_Compliant row
                  = (if non_compliant_audit dp (Taxpayer_ID (tr_features row)) then 1 else 0)"
    if "row \<in> set rows" for row
  proof -
    from that rows obtain f a l where
      m: "((f, a), l) \<in> set ?training_data" and r: "row = ?row ((f, a), l)"
      by auto
    show ?thesis
    proof (cases l)
      case None
      with left_merge_member(2) [OF m]
      have "\<forall>x \<in> set (audit_labels dp). fst x \<noteq> Taxpayer_ID f" by simp
      then have "Taxpayer_ID f \<notin> fst ` set (audit_labels dp)" by auto
      then have "\<not> non_compliant_audit dp (Taxpayer_ID f)"
        unfolding audit_labels_keys by (auto simp: non_compliant_audit_def image_iff)
      with None r show ?thesis by simp
    next
      case (Some kv)
      obtain k v where kv: "kv = (k, v)" by (cases kv)
      from left_merge_member(3) [OF m, of kv] Some kv
      have "(k, v) \<in> set (audit_labels dp)" "k = Taxpayer_ID f" by auto
      with audit_labels_member [of k v dp] Some kv r show ?thesis by simp
    qed
  qed
  have "tr_features ` set rows = fst ` fst ` set ?training_data"
    unfolding rows by (force simp: image_iff)
  also have "\<dots> = fst ` set ?features_df"
    by (simp only: left_merge_keeps_left)
  also have "\<dots> = set (get_all_taxpayer_features dp now)"
    by (simp only: left_merge_keeps_left)
  finally have features: "set (map tr_features rows) = set (get_all_taxpayer_features dp now)"
    by simp
  have l1: "\<forall>row \<in> set rows.
            Is_Non_Compliant row
              = (if ''Non-Compliant''
                      \<in> set (audit_findings_of dp (Taxpayer_ID (tr_features row)))
                 then 1 else 0)"
    using labels by (simp add: non_compliant_audit_iff)
  have l2: "\<forall>row \<in> set rows.
          (audit_findings_of dp (Taxpayer_ID (tr_features row))
             = [''Compliant'', ''Non-Compliant''] \<longrightarrow> Is_Non_Compliant row = 1)
        \<and> (audit_findings_of dp (Taxpayer_ID (tr_features row)) = [''Compliant'']
             \<longrightarrow> Is_Non_Compliant row = 0)
        \<and> (audit_findings_of dp (Taxpayer_ID (tr_features row)) = []
             \<longrightarrow> Is_Non_Compliant row = 0)"
    using l1 by simp
  from l1 l2 features show ?thesis by (intro conjI)
qed

theorem training_label_witness:
  "\<exists>rows. risk_training_data example_dp (example_ad (- (1 / 2))) 0 = Inr rows
      \<and> map (\<lambda>row. (Taxpayer_ID (tr_features row), Is_Non_Compliant row)) rows
           = [(''T1'', 1), (''T3'', 0), (''T4'', 0)]
      \<and> audit_findings_of example_dp ''T1'' = [''Compliant'', ''Non-Compliant'']
      \<and> audit_findings_of example_dp ''T3'' = [''Compliant'']
      \<and> audit_findings_of example_dp ''T4'' = []"
proof -
  obtain rows where
    r: "risk_training_data example_dp (example_ad (- (1 / 2))) 0 = Inr rows"
    and l: "map (\<lambda>row. (Taxpayer_ID (tr_features row), Is_Non_Compliant row)) rows
              = [(''T1'', 1), (''T3'', 0), (''T4'', 0)]"
    using ex_training_labels by (auto split: sum.splits)
  from training_label_is_any_non_compliant [OF r]
  have "set (map tr_features rows)
          = set (get_all_taxpayer_features example_dp 0)"
    by blast
  with r l ex_findings show ?thesis
    by (intro exI [of _ rows]) simp
qed

section \<open>Explanation rules\<close>





lemma ex_ratio_messages:
  "ratio_rule (Fin 1) = []"
  "ratio_rule (Fin (3 / 2)) = [''Input tax claim is 150.0% higher than industry benchmark'']"
  "ratio_rule (Fin (- (1 / 2))) = []"
  "ratio_rule (Fin (- (3 / 4))) = [''Input tax claim is 75.0% lower than industry benchmark'']"
  by code_simp+

lemma ex_scenario:
  "generate_explanation (scenario_features (1 / 2)) (Fin (1 / 20))
     = ''No significant anomalies detected''"
  "generate_explanation (scenario_features (51 / 100)) (Fin (1 / 20))
     = ''Revenue grew by 51.0% (unusually high)''"
  "generate_explanation (scenario_features (51 / 100)) (Fin (1 / 50))
     = ''Input tax claim is 233.3% higher than industry benchmark | Revenue grew by 51.0% (unusually high)''"
  by code_simp+





end
